theory Spec2Isabelle
  imports Main "HOL-Library.Sublist"
begin

section \<open>Python strings\<close>

text \<open>
  A Python \<open>str\<close> is a sequence of code points and \<open>len\<close> counts code points.
  Texts are modelled as \<open>string\<close>, one \<open>char\<close> per code point.  The pictographs
  of the message literals of \<open>main.py\<close> lie outside the 8-bit range of \<open>char\<close>; each
  of their code points is stood in by one otherwise unused character, so that every
  literal keeps its length.  None of the stand-ins is a white-space character.
\<close>

definition g_brain :: string where "g_brain = [CHR 0x80]"        \<comment> \<open>U+1F9E0\<close>
definition g_warning :: string where "g_warning = [CHR 0x81, CHR 0x82]" \<comment> \<open>U+26A0 U+FE0F\<close>
definition g_floppy :: string where "g_floppy = [CHR 0x83]"      \<comment> \<open>U+1F4BE\<close>
definition g_cross :: string where "g_cross = [CHR 0x84]"        \<comment> \<open>U+274C\<close>
definition g_wrench :: string where "g_wrench = [CHR 0x86]"      \<comment> \<open>U+1F527\<close>
definition g_snake :: string where "g_snake = [CHR 0x87]"        \<comment> \<open>U+1F40D\<close>
definition g_siren :: string where "g_siren = [CHR 0x88]"        \<comment> \<open>U+1F6A8\<close>
definition g_check :: string where "g_check = [CHR 0x89]"        \<comment> \<open>U+2705\<close>
definition g_rocket :: string where "g_rocket = [CHR 0x8A]"      \<comment> \<open>U+1F680\<close>
definition g_alarm :: string where "g_alarm = [CHR 0x8B]"        \<comment> \<open>U+23F0\<close>
definition g_robot :: string where "g_robot = [CHR 0x8C]"        \<comment> \<open>U+1F916\<close>
definition g_cycle :: string where "g_cycle = [CHR 0x8D]"        \<comment> \<open>U+1F504\<close>
definition g_books :: string where "g_books = [CHR 0x8E]"        \<comment> \<open>U+1F4DA\<close>
definition g_target :: string where "g_target = [CHR 0x8F]"      \<comment> \<open>U+1F3AF\<close>
definition g_bolt :: string where "g_bolt = [CHR 0x90]"          \<comment> \<open>U+26A1\<close>
definition g_basket :: string where "g_basket = [CHR 0x91, CHR 0x82]" \<comment> \<open>U+1F5D1 U+FE0F\<close>
definition g_bullet :: string where "g_bullet = [CHR 0x92]"      \<comment> \<open>U+2022\<close>

text \<open>\<open>sub in s\<close> on two strings: \<open>sub\<close> occurs in \<open>s\<close> as a contiguous block.\<close>

fun str_in :: "string \<Rightarrow> string \<Rightarrow> bool" where
  "str_in sub [] = (sub = [])"
| "str_in sub (c # cs) = (prefix sub (c # cs) \<or> str_in sub cs)"

text \<open>\<open>s.find(sub)\<close>: the lowest index at which \<open>sub\<close> occurs in \<open>s\<close>, or \<open>-1\<close>.\<close>

fun str_find :: "string \<Rightarrow> string \<Rightarrow> int" where
  "str_find [] sub = (if sub = [] then 0 else - 1)"
| "str_find (c # cs) sub =
     (if prefix sub (c # cs) then 0
      else (let r = str_find cs sub in if r < 0 then - 1 else r + 1))"

text \<open>
  \<open>s[a:b]\<close>: a negative bound counts from the end, both bounds are clamped to
  \<open>0..len(s)\<close>, and the slice is empty when the upper bound is not above the lower.
\<close>

definition slice_bound :: "nat \<Rightarrow> int \<Rightarrow> nat" where
  "slice_bound n i = (if i < 0 then nat (max 0 (i + int n)) else min (nat i) n)"

definition str_slice :: "string \<Rightarrow> int \<Rightarrow> int \<Rightarrow> string" where
  "str_slice s a b =
     (let i = slice_bound (length s) a; j = slice_bound (length s) b
      in take (j - i) (drop i s))"

text \<open>\<open>str.isspace\<close> on the code points below 256, and \<open>s.strip()\<close>.\<close>

definition is_space :: "char \<Rightarrow> bool" where
  "is_space c = ((of_char c :: nat) \<in> {9, 10, 11, 12, 13, 28, 29, 30, 31, 32, 133, 160})"

definition str_strip :: "string \<Rightarrow> string" where
  "str_strip s = rev (dropWhile is_space (rev (dropWhile is_space s)))"

text \<open>\<open>s.split(d)\<close> for a one-character separator: never an empty list.\<close>

fun str_split :: "char \<Rightarrow> string \<Rightarrow> string list" where
  "str_split d [] = [[]]"
| "str_split d (c # cs) =
     (if c = d then [] # str_split d cs
      else (c # hd (str_split d cs)) # tl (str_split d cs))"

text \<open>
  \<open>s.replace(old, '')\<close> for a non-empty \<open>old\<close>: the occurrences are removed from
  left to right, without overlap.
\<close>

fun str_remove :: "string \<Rightarrow> string \<Rightarrow> string" where
  "str_remove old [] = []"
| "str_remove old (c # cs) =
     (if old \<noteq> [] \<and> prefix old (c # cs)
      then str_remove old (drop (length old - 1) cs)
      else c # str_remove old cs)"

section \<open>Decoded JSON values and the Memory Bundle\<close>

text \<open>
  The values \<open>json.loads\<close> returns.  A float is carried by its literal.  An object is a
  Python \<open>dict\<close> with string keys, kept in insertion order.
\<close>

datatype json =
    JNull
  | JBool bool
  | JInt int
  | JFloat string
  | JStr string
  | JArr "json list"
  | JObj "(string \<times> json) list"

text \<open>
  A dictionary of the program (\<open>ai_memory\<close>, \<open>custom_functions\<close>) in insertion order.
  \<open>d[k] = v\<close> replaces the value of a present key in place and appends a new key.
  Keys are compared structurally.
\<close>

type_synonym pydict = "(json \<times> json) list"

fun dict_set :: "pydict \<Rightarrow> json \<Rightarrow> json \<Rightarrow> pydict" where
  "dict_set [] k v = [(k, v)]"
| "dict_set (p # ps) k v = (if fst p = k then (k, v) # ps else p # dict_set ps k v)"

record pattern_entry =
  p_pattern :: json
  p_learned_from :: string
  p_timestamp :: string

record evolution_entry =
  e_timestamp :: string
  e_type :: string
  e_description :: string
  e_source :: string
  e_conversation_context :: nat

text \<open>
  The dictionary \<open>save_ai_memory\<close> pickles.  \<open>load_ai_memory\<close> reads each key with
  \<open>data.get(key, default)\<close>, so a key may be missing from a file.
\<close>

record saved =
  sv_memory :: "pydict option"
  sv_patterns :: "pattern_entry list option"
  sv_functions :: "pydict option"
  sv_evolution :: "evolution_entry list option"
  sv_last_saved :: "string option"

datatype file_content = Script string | Pickle saved | Garbage

section \<open>The process state and its environment\<close>

datatype backend = Gemini | GPT | Claude

text \<open>The interactions of the process with the outside, in the order they happen.\<close>

datatype event =
    Print string
  | Generate backend json
  | ClockRead
  | RunShell string
  | MakeTemp
  | WriteTemp string
  | RunInterpreter string
  | Unlink string
  | ExecCode string
  | DumpMemory
  | LoadMemory

text \<open>
  The module's global variables, the text of the input buffer, the files the program
  manages and the trace of its interactions.
\<close>

record orch =
  conversation_history :: string
  project_state :: string
  autonomous_mode :: bool
  autonomous_task_queue :: "string list"
  pending_bash_code :: string
  pending_python_code :: string
  pending_self_mod :: string
  pending_code_source :: string
  ai_memory :: pydict
  learned_patterns :: "pattern_entry list"
  custom_functions :: pydict
  evolution_log :: "evolution_entry list"
  buffer_text :: string
  files :: "string \<Rightarrow> file_content option"
  effects :: "event list"

text \<open>The outcome of \<open>subprocess.run\<close> with \<open>timeout=30\<close>.\<close>

datatype proc_outcome =
    Completed int string string
  | TimeoutExpired
  | Raised string

datatype loads_result = Decoded json | JSONDecodeError string | LoadsError string

datatype write_outcome = Written | OpenFailed string | DumpFailed string

text \<open>
  How a body run by \<open>exec\<close> ends: it finishes, it raises an instance of \<open>Exception\<close>
  (given by its message), or it raises an exception that is no instance of
  \<open>Exception\<close>, as \<open>SystemExit\<close> and \<open>KeyboardInterrupt\<close> are (given by the name of
  its class), which no \<open>except Exception\<close> catches.
\<close>

datatype exec_end = Finished | Caught string | Escaped string

record exec_outcome =
  x_memory :: pydict
  x_patterns :: "pattern_entry list"
  x_functions :: pydict
  x_messages :: "string list"
  x_end :: exec_end

text \<open>
  What the program takes from libraries and from the outside.  An answer of the
  outside depends on the number of interactions before it, so that two calls may be
  answered differently.  An exception is given by its message \<open>str(e)\<close>; the
  exceptions are instances of \<open>Exception\<close>, except where a body run by \<open>exec\<close>
  raises another one.
\<close>

record env =
  json_loads :: "string \<Rightarrow> loads_result"
  py_str :: "json \<Rightarrow> string"
  str_memory :: "pydict \<Rightarrow> string"
  str_patterns :: "pattern_entry list \<Rightarrow> string"
  str_evolution :: "evolution_entry list \<Rightarrow> string"
  str_names :: "json list \<Rightarrow> string"
  type_error :: "string \<Rightarrow> json \<Rightarrow> string"
  update_from_seq :: "pydict \<Rightarrow> json \<Rightarrow> pydict \<times> string option"
  provider :: "backend \<Rightarrow> nat \<Rightarrow> json \<Rightarrow> string + string"
  clock :: "nat \<Rightarrow> string"
  shell :: "nat \<Rightarrow> string \<Rightarrow> proc_outcome"
  interpreter :: "nat \<Rightarrow> string \<Rightarrow> string \<Rightarrow> proc_outcome"
  mktemp :: "nat \<Rightarrow> string + string"
  write_error :: "nat \<Rightarrow> string option"
  exec_code :: "nat \<Rightarrow> string \<Rightarrow> pydict \<times> pattern_entry list \<times> pydict \<Rightarrow> exec_outcome"
  dump_outcome :: "nat \<Rightarrow> write_outcome"
  load_error :: "nat \<Rightarrow> string option"
  unpickle_error :: "file_content \<Rightarrow> string"

definition emit :: "event \<Rightarrow> orch \<Rightarrow> orch" where
  "emit ev s = s\<lparr>effects := effects s @ [ev]\<rparr>"

definition step :: "orch \<Rightarrow> nat" where
  "step s = length (effects s)"

section \<open>The transcript\<close>

text \<open>
  The \<open>while\<close> loop of \<open>update_history\<close> on one line: 80 characters are cut off and the
  rest goes on, indented by two blanks, until at most 80 are left.
\<close>

function wrap_line :: "string \<Rightarrow> string" where
  "wrap_line line =
     (if length line > 80
      then take 80 line @ ''\<newline>'' @ wrap_line (''  '' @ drop 80 line)
      else line @ ''\<newline>'')"
  by pat_completeness auto
termination
  by (relation "measure length") auto

declare wrap_line.simps [simp del]

definition wrapped_text :: "string \<Rightarrow> string" where
  "wrapped_text new_text = concat (map wrap_line (str_split CHR ''\<newline>'' new_text))"

definition update_history :: "string \<Rightarrow> orch \<Rightarrow> orch" where
  "update_history new_text s =
     s\<lparr>conversation_history := conversation_history s @ wrapped_text new_text\<rparr>"

section \<open>The artifact extractor\<close>

definition bash_block :: "string \<Rightarrow> string \<Rightarrow> orch \<Rightarrow> orch" where
  "bash_block response_text source_ai s =
     (if str_in ''@Bash'' response_text \<and> str_in ''@EndBash'' response_text then
        (let start = str_find response_text ''@Bash'' + 5;
             end = str_find response_text ''@EndBash'';
             code = str_strip (str_slice response_text start end);
             s1 = s\<lparr>pending_bash_code := code, pending_code_source := source_ai\<rparr>;
             s2 = update_history (g_wrench @ '' BASH CODE READY from '' @ source_ai @ '':'') s1;
             s3 = update_history (''```bash\<newline>'' @ code @ ''\<newline>```'') s2
         in update_history (g_warning @
              ''  Press 'B' to run, 'D' to deny, or 1/2/3 to send to another AI for review'') s3)
      else s)"

definition python_block :: "string \<Rightarrow> string \<Rightarrow> orch \<Rightarrow> orch" where
  "python_block response_text source_ai s =
     (if str_in ''@Python'' response_text \<and> str_in ''@EndPython'' response_text then
        (let start = str_find response_text ''@Python'' + 7;
             end = str_find response_text ''@EndPython'';
             code = str_strip (str_slice response_text start end);
             s1 = s\<lparr>pending_python_code := code, pending_code_source := source_ai\<rparr>;
             s2 = update_history (g_snake @ '' PYTHON CODE READY from '' @ source_ai @ '':'') s1;
             s3 = update_history (''```python\<newline>'' @ code @ ''\<newline>```'') s2
         in update_history (g_warning @
              ''  Press 'P' to run, 'D' to deny, or 1/2/3 to send to another AI for review'') s3)
      else s)"

definition selfmod_block :: "string \<Rightarrow> string \<Rightarrow> orch \<Rightarrow> orch" where
  "selfmod_block response_text source_ai s =
     (if str_in ''@SelfMod'' response_text \<and> str_in ''@EndSelfMod'' response_text then
        (let start = str_find response_text ''@SelfMod'' + 8;
             end = str_find response_text ''@EndSelfMod'';
             code = str_strip (str_slice response_text start end);
             s1 = s\<lparr>pending_self_mod := code, pending_code_source := source_ai\<rparr>;
             s2 = update_history (g_brain @ '' SELF-MODIFICATION READY from '' @ source_ai @ '':'') s1;
             s3 = update_history (''```\<newline>'' @ code @ ''\<newline>```'') s2;
             s4 = update_history (g_warning @
              ''  Press 'S' to apply, 'D' to deny, or 1/2/3 to send to another AI for review'') s3
         in update_history (g_siren @ '' WARNING: This will modify the AI system itself!'') s4)
      else s)"

definition extract_and_store_code :: "string \<Rightarrow> string \<Rightarrow> orch \<Rightarrow> orch" where
  "extract_and_store_code response_text source_ai s =
     selfmod_block response_text source_ai
       (python_block response_text source_ai
          (bash_block response_text source_ai s))"

section \<open>The backend gateway (\<open>ai_connectors.py\<close>)\<close>

text \<open>
  Each call prints its banner and then asks the provider inside \<open>try\<close>; the answer of
  the provider is \<open>Inr\<close> the text or \<open>Inl\<close> the message of the exception it raised.
\<close>

definition call_gemini :: "env \<Rightarrow> json \<Rightarrow> orch \<Rightarrow> string \<times> orch" where
  "call_gemini E prompt s =
     (let s1 = emit (Print ''--- Calling Orchestrator (Gemini) ---'') s;
          r = provider E Gemini (step s1) prompt;
          s2 = emit (Generate Gemini prompt) s1
      in (case r of Inr text \<Rightarrow> text | Inl e \<Rightarrow> ''Gemini Error: '' @ e, s2))"

definition call_gpt :: "env \<Rightarrow> json \<Rightarrow> orch \<Rightarrow> string \<times> orch" where
  "call_gpt E prompt s =
     (let s1 = emit (Print ''--- Delegating to Specialist (GPT) ---'') s;
          r = provider E GPT (step s1) prompt;
          s2 = emit (Generate GPT prompt) s1
      in (case r of Inr text \<Rightarrow> text | Inl e \<Rightarrow> ''GPT Error: '' @ e, s2))"

definition call_claude :: "env \<Rightarrow> json \<Rightarrow> orch \<Rightarrow> string \<times> orch" where
  "call_claude E prompt s =
     (let s1 = emit (Print ''--- Delegating to Specialist (Claude) ---'') s;
          r = provider E Claude (step s1) prompt;
          s2 = emit (Generate Claude prompt) s1
      in (case r of Inr text \<Rightarrow> text | Inl e \<Rightarrow> ''Claude Error: '' @ e, s2))"

section \<open>The memory store\<close>

definition save_ai_memory :: "env \<Rightarrow> orch \<Rightarrow> orch" where
  "save_ai_memory E s =
     (let last_saved = clock E (step s);
          s1 = emit ClockRead s;
          data = \<lparr>sv_memory = Some (ai_memory s1),
                  sv_patterns = Some (learned_patterns s1),
                  sv_functions = Some (custom_functions s1),
                  sv_evolution = Some (evolution_log s1),
                  sv_last_saved = Some last_saved\<rparr>;
          outcome = dump_outcome E (step s1);
          s2 = emit DumpMemory s1
      in case outcome of
           Written \<Rightarrow>
             update_history (g_floppy @ '' AI memory saved successfully!'')
               (s2\<lparr>files := (files s2)(''ai_memory.pkl'' \<mapsto> Pickle data)\<rparr>)
         | OpenFailed e \<Rightarrow>
             update_history (g_cross @ '' Could not save AI memory: '' @ e) s2
         | DumpFailed e \<Rightarrow>
             update_history (g_cross @ '' Could not save AI memory: '' @ e)
               (s2\<lparr>files := (files s2)(''ai_memory.pkl'' \<mapsto> Garbage)\<rparr>))"

definition load_ai_memory :: "env \<Rightarrow> orch \<Rightarrow> orch" where
  "load_ai_memory E s =
     (case files s ''ai_memory.pkl'' of
        None \<Rightarrow> s
      | Some f \<Rightarrow>
          (let err = load_error E (step s);
               s1 = emit LoadMemory s
           in case err of
                Some e \<Rightarrow> update_history (g_warning @ ''  Could not load AI memory: '' @ e) s1
              | None \<Rightarrow>
                  (case f of
                     Pickle data \<Rightarrow>
                       update_history (g_brain @ '' AI memory loaded successfully!'')
                         (s1\<lparr>ai_memory := (case sv_memory data of Some m \<Rightarrow> m | None \<Rightarrow> []),
                             learned_patterns :=
                               (case sv_patterns data of Some p \<Rightarrow> p | None \<Rightarrow> []),
                             custom_functions :=
                               (case sv_functions data of Some c \<Rightarrow> c | None \<Rightarrow> []),
                             evolution_log :=
                               (case sv_evolution data of Some l \<Rightarrow> l | None \<Rightarrow> [])\<rparr>)
                   | _ \<Rightarrow>
                       update_history
                         (g_warning @ ''  Could not load AI memory: '' @ unpickle_error E f) s1)))"

definition log_evolution :: "env \<Rightarrow> string \<Rightarrow> string \<Rightarrow> string \<Rightarrow> orch \<Rightarrow> orch" where
  "log_evolution E modification_type description source_ai s =
     (let now = clock E (step s);
          s1 = emit ClockRead s;
          evolution_entry =
            \<lparr>e_timestamp = now, e_type = modification_type, e_description = description,
             e_source = source_ai,
             e_conversation_context = length (conversation_history s1)\<rparr>
      in save_ai_memory E (s1\<lparr>evolution_log := evolution_log s1 @ [evolution_entry]\<rparr>))"

section \<open>The self-modification applier\<close>

text \<open>
  The operations of Python on a decoded value whose type is only known at run time.
  \<open>Inl\<close> carries the message of the exception.
\<close>

definition py_contains :: "env \<Rightarrow> string \<Rightarrow> json \<Rightarrow> string + bool" where
  "py_contains E key v =
     (case v of
        JObj kvs \<Rightarrow> Inr (key \<in> set (map fst kvs))
      | JArr xs \<Rightarrow> Inr (JStr key \<in> set xs)
      | JStr t \<Rightarrow> Inr (str_in key t)
      | _ \<Rightarrow> Inl (type_error E ''in'' v))"

definition py_getitem :: "env \<Rightarrow> json \<Rightarrow> string \<Rightarrow> string + json" where
  "py_getitem E v key =
     (case v of
        JObj kvs \<Rightarrow>
          (case map_of kvs key of
             Some x \<Rightarrow> Inr x
           | None \<Rightarrow> Inl ([CHR 0x27] @ key @ [CHR 0x27]))
      | _ \<Rightarrow> Inl (type_error E ''getitem'' v))"

fun hashable :: "json \<Rightarrow> bool" where
  "hashable (JArr xs) = False"
| "hashable (JObj kvs) = False"
| "hashable v = True"

text \<open>
  \<open>d.update(v)\<close>: an object is merged key by key; for any other value the sequence
  protocol of \<open>dict.update\<close> is the environment's, which returns the dictionary as it
  left it and the message of the exception, if it raised one.
\<close>

definition dict_update :: "env \<Rightarrow> pydict \<Rightarrow> json \<Rightarrow> pydict \<times> string option" where
  "dict_update E d v =
     (case v of
        JObj kvs \<Rightarrow> (fold (\<lambda>(k, x) d'. dict_set d' (JStr k) x) kvs d, None)
      | _ \<Rightarrow> update_from_seq E d v)"

text \<open>A value inside an f-string: a \<open>str\<close> is inserted as it is.\<close>

definition fmt :: "env \<Rightarrow> json \<Rightarrow> string" where
  "fmt E v = (case v of JStr t \<Rightarrow> t | _ \<Rightarrow> py_str E v)"

text \<open>
  A run that may raise: the state reached, and the message of the exception when one
  was raised on the way.
\<close>

type_synonym outcome = "orch \<times> string option"

definition memory_update_block :: "env \<Rightarrow> json \<Rightarrow> orch \<Rightarrow> outcome" where
  "memory_update_block E modification s =
     (case py_contains E ''memory_update'' modification of
        Inl e \<Rightarrow> (s, Some e)
      | Inr False \<Rightarrow> (s, None)
      | Inr True \<Rightarrow>
          (case py_getitem E modification ''memory_update'' of
             Inl e \<Rightarrow> (s, Some e)
           | Inr u \<Rightarrow>
               (case dict_update E (ai_memory s) u of
                  (d, Some e) \<Rightarrow> (s\<lparr>ai_memory := d\<rparr>, Some e)
                | (d, None) \<Rightarrow>
                    (update_history (g_check @ '' Memory updated: '' @ fmt E u)
                       (s\<lparr>ai_memory := d\<rparr>), None))))"

definition new_pattern_block :: "env \<Rightarrow> json \<Rightarrow> orch \<Rightarrow> outcome" where
  "new_pattern_block E modification s =
     (case py_contains E ''new_pattern'' modification of
        Inl e \<Rightarrow> (s, Some e)
      | Inr False \<Rightarrow> (s, None)
      | Inr True \<Rightarrow>
          (case py_getitem E modification ''new_pattern'' of
             Inl e \<Rightarrow> (s, Some e)
           | Inr p \<Rightarrow>
               (let now = clock E (step s);
                    s1 = emit ClockRead s;
                    s2 = s1\<lparr>learned_patterns := learned_patterns s1 @
                           [\<lparr>p_pattern = p, p_learned_from = pending_code_source s1,
                             p_timestamp = now\<rparr>]\<rparr>
                in (update_history (g_check @ '' New pattern learned: '' @ fmt E p) s2,
                    None))))"

definition new_function_block :: "env \<Rightarrow> json \<Rightarrow> orch \<Rightarrow> outcome" where
  "new_function_block E modification s =
     (case py_contains E ''new_function'' modification of
        Inl e \<Rightarrow> (s, Some e)
      | Inr False \<Rightarrow> (s, None)
      | Inr True \<Rightarrow>
          (case py_getitem E modification ''new_function'' of
             Inl e \<Rightarrow> (s, Some e)
           | Inr nf \<Rightarrow>
               (case py_getitem E nf ''name'' of
                  Inl e \<Rightarrow> (s, Some e)
                | Inr func_name \<Rightarrow>
                    (case py_getitem E nf ''code'' of
                       Inl e \<Rightarrow> (s, Some e)
                     | Inr func_code \<Rightarrow>
                         (if hashable func_name then
                            (update_history (g_check @ '' New function added: '' @ fmt E func_name)
                               (s\<lparr>custom_functions :=
                                    dict_set (custom_functions s) func_name func_code\<rparr>),
                             None)
                          else (s, Some (type_error E ''hash'' func_name)))))))"

text \<open>The body of the outer \<open>try\<close> once \<open>json.loads\<close> has returned.\<close>

definition apply_structured :: "env \<Rightarrow> json \<Rightarrow> orch \<Rightarrow> outcome" where
  "apply_structured E modification s =
     (case memory_update_block E modification s of
        (s1, Some e) \<Rightarrow> (s1, Some e)
      | (s1, None) \<Rightarrow>
          (case new_pattern_block E modification s1 of
             (s2, Some e) \<Rightarrow> (s2, Some e)
           | (s2, None) \<Rightarrow>
               (case new_function_block E modification s2 of
                  (s3, Some e) \<Rightarrow> (s3, Some e)
                | (s3, None) \<Rightarrow>
                    (log_evolution E ''self_modification''
                       (''Applied modification: '' @ fmt E modification)
                       (pending_code_source s3) s3, None))))"

text \<open>
  The handler of \<open>json.JSONDecodeError\<close>: \<open>exec\<close> runs the body on the three shared
  objects and \<open>update_history\<close>; the environment says how it left the objects, what it
  sent to the transcript, and how it ended.  The inner \<open>except Exception\<close> catches an
  instance of \<open>Exception\<close>; any other exception leaves the handler, and the function,
  uncaught.
\<close>

definition exec_fallback :: "env \<Rightarrow> orch \<Rightarrow> outcome" where
  "exec_fallback E s =
     (let r = exec_code E (step s) (pending_self_mod s)
                (ai_memory s, learned_patterns s, custom_functions s);
          s1 = emit (ExecCode (pending_self_mod s)) s;
          s2 = fold update_history (x_messages r)
                 (s1\<lparr>ai_memory := x_memory r, learned_patterns := x_patterns r,
                     custom_functions := x_functions r\<rparr>)
      in case x_end r of
           Finished \<Rightarrow>
             (log_evolution E ''code_execution''
                (''Executed self-mod code: '' @ take 100 (pending_self_mod s2) @ ''...'')
                (pending_code_source s2)
                (update_history (g_check @ '' Self-modification code executed successfully'') s2),
              None)
         | Caught e \<Rightarrow>
             (update_history (g_cross @ '' Self-modification failed: '' @ e) s2, None)
         | Escaped n \<Rightarrow> (s2, Some n))"

text \<open>
  The whole function: the state it leaves, and the exception that leaves it uncaught,
  if any.  The two statements after the \<open>try\<close> run only when the \<open>try\<close> with its
  handlers has come to its end.
\<close>

definition apply_self_modification :: "env \<Rightarrow> orch \<Rightarrow> outcome" where
  "apply_self_modification E s =
     (if pending_self_mod s = [] then
        (update_history (g_cross @ '' No self-modification pending'') s, None)
      else
        (let s1 = update_history
                    (g_brain @ '' Applying self-modification from '' @ pending_code_source s
                       @ ''...'') s;
             tried = (case json_loads E (pending_self_mod s1) of
                        Decoded modification \<Rightarrow>
                          (case apply_structured E modification s1 of
                             (s', None) \<Rightarrow> (s', None)
                           | (s', Some e) \<Rightarrow>
                               (update_history (g_cross @ '' Self-modification error: '' @ e) s',
                                None))
                      | JSONDecodeError e \<Rightarrow> exec_fallback E s1
                      | LoadsError e \<Rightarrow>
                          (update_history (g_cross @ '' Self-modification error: '' @ e) s1,
                           None))
         in case tried of
              (s2, None) \<Rightarrow> (save_ai_memory E (s2\<lparr>pending_self_mod := []\<rparr>), None)
            | (s2, Some n) \<Rightarrow> (s2, Some n)))"

section \<open>The execution sandbox\<close>

definition run_bash_code :: "env \<Rightarrow> orch \<Rightarrow> orch" where
  "run_bash_code E s =
     (if pending_bash_code s = [] then
        update_history (g_cross @ '' No bash code pending'') s
      else
        (let s1 = update_history
                    (g_rocket @ '' Executing bash code from '' @ pending_code_source s @ ''...'') s;
             result = shell E (step s1) (pending_bash_code s1);
             s2 = emit (RunShell (pending_bash_code s1)) s1;
             s3 = (case result of
                     Completed returncode out err \<Rightarrow>
                       (if returncode = 0
                        then update_history
                               (g_check @ '' Bash execution successful:\<newline>'' @ out) s2
                        else update_history
                               (g_cross @ '' Bash execution failed:\<newline>'' @ err) s2)
                   | TimeoutExpired \<Rightarrow>
                       update_history (g_alarm @ '' Bash execution timed out (30s limit)'') s2
                   | Raised e \<Rightarrow>
                       update_history (g_cross @ '' Bash execution error: '' @ e) s2)
         in s3\<lparr>pending_bash_code := []\<rparr>))"

text \<open>
  The body of the \<open>try\<close> of \<open>run_python_code\<close>: the temporary file is created and
  written, the interpreter runs on its path, and only when \<open>subprocess.run\<close> has
  returned is the file unlinked.
\<close>

definition python_try :: "env \<Rightarrow> orch \<Rightarrow> orch" where
  "python_try E s =
     (let created = mktemp E (step s);
          s1 = emit MakeTemp s
      in case created of
           Inl e \<Rightarrow> update_history (g_cross @ '' Python execution error: '' @ e) s1
         | Inr temp_file \<Rightarrow>
             (let failed = write_error E (step s1);
                  s2 = emit (WriteTemp temp_file) s1
              in case failed of
                   Some e \<Rightarrow>
                     update_history (g_cross @ '' Python execution error: '' @ e)
                       (s2\<lparr>files := (files s2)(temp_file \<mapsto> Script [])\<rparr>)
                 | None \<Rightarrow>
                     (let s3 = s2\<lparr>files := (files s2)(temp_file \<mapsto>
                                  Script (pending_python_code s2))\<rparr>;
                          result = interpreter E (step s3) temp_file (pending_python_code s3);
                          s4 = emit (RunInterpreter temp_file) s3
                      in case result of
                           Completed returncode out err \<Rightarrow>
                             (case files s4 temp_file of
                                None \<Rightarrow>
                                  update_history
                                    (g_cross @ '' Python execution error: ''
                                       @ ''[Errno 2] No such file or directory: ''
                                       @ [CHR 0x27] @ temp_file @ [CHR 0x27])
                                    (emit (Unlink temp_file) s4)
                              | Some f \<Rightarrow>
                                  (let s5 = emit (Unlink temp_file)
                                              (s4\<lparr>files := (files s4)(temp_file := None)\<rparr>)
                                   in if returncode = 0
                                      then update_history
                                             (g_check @ '' Python execution successful:\<newline>''
                                                @ out) s5
                                      else update_history
                                             (g_cross @ '' Python execution failed:\<newline>''
                                                @ err) s5))
                         | TimeoutExpired \<Rightarrow>
                             update_history
                               (g_alarm @ '' Python execution timed out (30s limit)'') s4
                         | Raised e \<Rightarrow>
                             update_history
                               (g_cross @ '' Python execution error: '' @ e) s4)))"

definition run_python_code :: "env \<Rightarrow> orch \<Rightarrow> orch" where
  "run_python_code E s =
     (if pending_python_code s = [] then
        update_history (g_cross @ '' No Python code pending'') s
      else
        (let s1 = update_history
                    (g_rocket @ '' Executing Python code from '' @ pending_code_source s
                       @ ''...'') s;
             s2 = python_try E s1
         in s2\<lparr>pending_python_code := []\<rparr>))"

definition clear_pending_code :: "orch \<Rightarrow> orch" where
  "clear_pending_code s =
     update_history (g_basket @ ''  All pending operations cleared'')
       (s\<lparr>pending_bash_code := [], pending_python_code := [], pending_self_mod := [],
          pending_code_source := []\<rparr>)"

section \<open>The state at start-up\<close>

text \<open>The values the module gives its global variables, with no file and no trace yet.\<close>

definition initial_state :: orch where
  "initial_state =
     \<lparr>conversation_history =
        ''Welcome to the AI Orchestrator v2.0 - Autonomous Agent!\<newline>\<newline>'' @
        ''Instructions:\<newline>'' @
        g_bullet @ '' F1: Smart orchestration (Gemini decides)\<newline>'' @
        g_bullet @ '' F2: Force GPT-4o\<newline>'' @
        g_bullet @ '' F3: Force Claude\<newline>'' @
        g_bullet @ '' F4/Ctrl-C: Exit\<newline>\<newline>'' @
        g_bullet @ '' 1: Send ALL context to Gemini\<newline>'' @
        g_bullet @ '' 2: Send ALL context to GPT-4o  \<newline>'' @
        g_bullet @ '' 3: Send ALL context to Claude\<newline>\<newline>'' @
        g_bullet @ '' Q: Request Python script (auto-prefixed)\<newline>'' @
        g_bullet @ '' W: Request Bash script (auto-prefixed)\<newline>'' @
        g_bullet @ '' E: Activate autonomous agent mode\<newline>'' @
        g_bullet @ '' P: Execute pending Python script\<newline>'' @
        g_bullet @ '' B: Execute pending Bash script\<newline>'' @
        g_bullet @ '' S: Apply pending self-modification\<newline>'' @
        g_bullet @ '' D: Deny/Clear pending operations\<newline>'' @
        g_bullet @ '' M: Manual self-modification mode\<newline>\<newline>'' @
        ''Autonomous AI system active!\<newline>'',
      project_state = ''Project has not started yet. The goal is undefined.'',
      autonomous_mode = False,
      autonomous_task_queue = [],
      pending_bash_code = [],
      pending_python_code = [],
      pending_self_mod = [],
      pending_code_source = [],
      ai_memory = [],
      learned_patterns = [],
      custom_functions = [],
      evolution_log = [],
      buffer_text = [],
      files = Map.empty,
      effects = []\<rparr>"

text \<open>
  An environment for concrete runs: no text decodes as JSON, every provider is out of
  reach, every process finishes with exit code 0 and no output, and every file
  operation succeeds.  The runs below change the answers they are about.
\<close>

definition plain_env :: env where
  "plain_env =
     \<lparr>json_loads = (\<lambda>t. JSONDecodeError ''Expecting value: line 1 column 1 (char 0)''),
      py_str = (\<lambda>v. ''<value>''),
      str_memory = (\<lambda>d. ''<memory>''),
      str_patterns = (\<lambda>ps. ''<patterns>''),
      str_evolution = (\<lambda>es. ''<evolution>''),
      str_names = (\<lambda>ks. ''<names>''),
      type_error = (\<lambda>opn v. ''unsupported operand''),
      update_from_seq = (\<lambda>d v. (d, Some ''cannot convert dictionary update sequence'')),
      provider = (\<lambda>b n p. Inl ''Connection error.''),
      clock = (\<lambda>n. ''2024-05-01T12:00:00.000000''),
      shell = (\<lambda>n c. Completed 0 [] []),
      interpreter = (\<lambda>n p c. Completed 0 [] []),
      mktemp = (\<lambda>n. Inr ''/tmp/tmpk3v9x2.py''),
      write_error = (\<lambda>n. None),
      exec_code = (\<lambda>n c (m, ps, fs).
         \<lparr>x_memory = m, x_patterns = ps, x_functions = fs, x_messages = [],
          x_end = Finished\<rparr>),
      dump_outcome = (\<lambda>n. Written),
      load_error = (\<lambda>n. None),
      unpickle_error = (\<lambda>f. ''invalid load key'')\<rparr>"

section \<open>The orchestration engine\<close>

text \<open>\<open>str(n)\<close> for a length: the decimal digits.\<close>

function str_nat :: "nat \<Rightarrow> string" where
  "str_nat n =
     (if n < 10 then [char_of (48 + n)]
      else str_nat (n div 10) @ [char_of (48 + n mod 10)])"
  by pat_completeness auto
termination
  by (relation "measure id") auto

declare str_nat.simps [simp del]

text \<open>
  The extractor on a value whose type is only known at run time (the \<open>prompt\<close> field of a
  decision).  On a \<open>str\<close> it is \<open>extract_and_store_code\<close>.  On any other value each
  block first tests \<open>open in v and close in v\<close>: the test raises on a value that is not
  a container, and when both tests hold the call of \<open>find\<close> raises; nothing is assigned
  before.
\<close>

definition marker_test :: "env \<Rightarrow> json \<Rightarrow> string \<Rightarrow> string \<Rightarrow> string option" where
  "marker_test E v opening closing =
     (case py_contains E opening v of
        Inl e \<Rightarrow> Some e
      | Inr False \<Rightarrow> None
      | Inr True \<Rightarrow>
          (case py_contains E closing v of
             Inl e \<Rightarrow> Some e
           | Inr False \<Rightarrow> None
           | Inr True \<Rightarrow> Some (type_error E ''find'' v)))"

definition extract_dynamic :: "env \<Rightarrow> json \<Rightarrow> string \<Rightarrow> orch \<Rightarrow> outcome" where
  "extract_dynamic E v source_ai s =
     (case v of
        JStr response_text \<Rightarrow> (extract_and_store_code response_text source_ai s, None)
      | _ \<Rightarrow>
          (case marker_test E v ''@Bash'' ''@EndBash'' of
             Some e \<Rightarrow> (s, Some e)
           | None \<Rightarrow>
               (case marker_test E v ''@Python'' ''@EndPython'' of
                  Some e \<Rightarrow> (s, Some e)
                | None \<Rightarrow> (s, marker_test E v ''@SelfMod'' ''@EndSelfMod''))))"

text \<open>The two \<open>if\<close>s that take a fenced code block off the decision text.\<close>

definition strip_fences :: "string \<Rightarrow> string" where
  "strip_fences decision_json_str =
     (let json_str = str_strip decision_json_str;
          json_str1 = (if prefix ''```json'' json_str
                       then str_strip (str_remove ''```'' (str_remove ''```json'' json_str))
                       else json_str)
      in if prefix ''```'' json_str1 then str_strip (str_remove ''```'' json_str1)
         else json_str1)"

text \<open>\<open>decision.get(key)\<close> on a decoded object: \<open>None\<close> for a missing key.\<close>

definition dict_get :: "(string \<times> json) list \<Rightarrow> string \<Rightarrow> json" where
  "dict_get kvs key = (case map_of kvs key of Some v \<Rightarrow> v | None \<Rightarrow> JNull)"

text \<open>
  The body of the \<open>try\<close> of the branch \<open>orchestrate\<close>: the output so far, the state
  reached, and the message of the exception if one was raised.
\<close>

definition decide :: "env \<Rightarrow> string \<Rightarrow> orch \<Rightarrow> json \<times> orch \<times> string option" where
  "decide E json_str s =
     (case json_loads E json_str of
        JSONDecodeError e \<Rightarrow> (JStr [], s, Some e)
      | LoadsError e \<Rightarrow> (JStr [], s, Some e)
      | Decoded decision \<Rightarrow>
          (case decision of
             JObj kvs \<Rightarrow>
               (let action = dict_get kvs ''action'';
                    prompt = dict_get kvs ''prompt''
                in if action = JStr ''delegate_to_gpt'' then
                     (let s1 = update_history (g_cycle @ '' Delegating to GPT-4o...'') s;
                          (specialist_output, s2) = call_gpt E prompt s1;
                          s3 = update_history
                                 (g_robot @ '' GPT-4o Response:\<newline>'' @ specialist_output) s2
                      in (JStr specialist_output,
                          extract_and_store_code specialist_output ''GPT-4o'' s3, None))
                   else if action = JStr ''delegate_to_claude'' then
                     (let s1 = update_history (g_cycle @ '' Delegating to Claude...'') s;
                          (specialist_output, s2) = call_claude E prompt s1;
                          s3 = update_history
                                 (g_books @ '' Claude Response:\<newline>'' @ specialist_output) s2
                      in (JStr specialist_output,
                          extract_and_store_code specialist_output ''Claude'' s3, None))
                   else
                     (let s1 = update_history
                                 (g_target @ '' Orchestrator Response:\<newline>'' @ fmt E prompt) s
                      in case extract_dynamic E prompt ''Orchestrator'' s1 of
                           (s2, err) \<Rightarrow> (prompt, s2, err)))
           | _ \<Rightarrow> (JStr [], s, Some (type_error E ''get'' decision))))"

text \<open>The \<open>try\<close> with its handler \<open>except Exception\<close>.\<close>

definition route_decision :: "env \<Rightarrow> string \<Rightarrow> orch \<Rightarrow> json \<times> orch" where
  "route_decision E decision_json_str s =
     (case decide E (strip_fences decision_json_str) s of
        (specialist_output, s1, None) \<Rightarrow> (specialist_output, s1)
      | (specialist_output, s1, Some e) \<Rightarrow>
          (let error_msg = g_cross @ '' Error parsing decision: '' @ e @
                 ''\<newline>Raw output: '' @ decision_json_str
           in (JStr error_msg, update_history error_msg s1)))"

definition orchestrator_prompt :: "env \<Rightarrow> string \<Rightarrow> orch \<Rightarrow> string" where
  \<open>orchestrator_prompt E user_input s =
     (let ai_memory_summary =
            (if ai_memory s \<noteq> [] then str_memory E (ai_memory s) else ''No stored memories'');
          patterns_summary =
            (if learned_patterns s \<noteq> []
             then str_patterns E (drop (length (learned_patterns s) - 3) (learned_patterns s))
             else ''No learned patterns'');
          evolution_summary =
            (if evolution_log s \<noteq> []
             then str_evolution E (drop (length (evolution_log s) - 2) (evolution_log s))
             else ''No evolution history'');
          autonomous_status =
            (if autonomous_mode s
             then ''Active with '' @ str_nat (length (autonomous_task_queue s)) @ '' queued tasks''
             else ''Inactive'')
      in ''You are an AI Project Manager named Gemini-Orchestrator. Your role is to manage a project by delegating tasks to specialist AIs.\<newline>'' @
         ''\<newline>'' @
         ''You have access to these specialists:\<newline>'' @
         ''- 'gpt': GPT-4o - Best for complex logic, code generation, technical analysis\<newline>'' @
         ''- 'claude': Claude 3.5 Sonnet - Best for creative writing, nuanced text, ethical reasoning\<newline>'' @
         ''\<newline>'' @
         ''SELF-DEVELOPMENT CAPABILITIES:\<newline>'' @
         ''You can suggest system modifications using these tags:\<newline>'' @
         ''- @Bash/@EndBash for bash/shell commands\<newline>'' @
         ''- @Python/@EndPython for Python scripts  \<newline>'' @
         ''- @SelfMod/@EndSelfMod for system modifications (new functions, learning patterns, memory updates)\<newline>'' @
         ''\<newline>'' @
         ''Current AI Memory: '' @ ai_memory_summary @ ''\<newline>'' @
         ''Recent Learning Patterns: '' @ patterns_summary @ ''\<newline>'' @
         ''Evolution Log: '' @ evolution_summary @ ''\<newline>'' @
         ''Autonomous Mode: '' @ autonomous_status @ ''\<newline>'' @
         ''\<newline>'' @
         ''Current project state: '' @ project_state s @ ''\<newline>'' @
         ''User's request: "'' @ user_input @ ''"\<newline>'' @
         ''\<newline>'' @
         ''Your task: Decide the single next action. You can now also suggest self-improvements! Respond with ONLY a valid JSON object:\<newline>'' @
         ''\<newline>'' @
         ''{"action": "respond_to_user", "prompt": "Your direct response"}\<newline>'' @
         ''{"action": "delegate_to_gpt", "prompt": "Specific prompt for GPT"}\<newline>'' @
         ''{"action": "delegate_to_claude", "prompt": "Specific prompt for Claude"}\<newline>'' @
         ''\<newline>'' @
         ''Respond with only the JSON, no additional text.'')\<close>

text \<open>The branch \<open>action_type == "orchestrate"\<close>.\<close>

definition orchestrate :: "env \<Rightarrow> string \<Rightarrow> orch \<Rightarrow> json \<times> orch" where
  "orchestrate E user_input s =
     (let s1 = update_history (g_robot @ '' Orchestrator analyzing...'') s;
          (decision_json_str, s2) = call_gemini E (JStr (orchestrator_prompt E user_input s1)) s1
      in route_decision E decision_json_str s2)"

definition context_prompt :: "env \<Rightarrow> string \<Rightarrow> orch \<Rightarrow> string" where
  "context_prompt E user_input s =
     ''Here is our full conversation context:\<newline>\<newline>'' @ conversation_history s @
     ''\<newline>\<newline>AI Memory: '' @ str_memory E (ai_memory s) @
     ''\<newline>Learned Patterns: '' @ str_patterns E (learned_patterns s) @
     ''\<newline>\<newline>Latest input: '' @ user_input @
     ''\<newline>\<newline>Please respond based on all context. You can suggest code using @Bash/@EndBash, @Python/@EndPython, or @SelfMod/@EndSelfMod tags.''"

text \<open>
  One specialist branch of \<open>handle_submission\<close>: a note, the call, the reply shown and
  handed to the extractor.
\<close>

definition ask :: "(json \<Rightarrow> orch \<Rightarrow> string \<times> orch) \<Rightarrow> string \<Rightarrow> string \<Rightarrow> string \<Rightarrow> string
    \<Rightarrow> orch \<Rightarrow> json \<times> orch" where
  "ask call note prompt heading source_ai s =
     (let s1 = update_history note s;
          (specialist_output, s2) = call (JStr prompt) s1;
          s3 = update_history (heading @ specialist_output) s2
      in (JStr specialist_output, extract_and_store_code specialist_output source_ai s3))"

definition dispatch :: "env \<Rightarrow> string \<Rightarrow> string \<Rightarrow> orch \<Rightarrow> json \<times> orch" where
  "dispatch E action_type user_input s =
     (if action_type = ''orchestrate'' then orchestrate E user_input s
      else if action_type = ''force_gpt'' then
        ask (call_gpt E) (g_bolt @ '' Forcing delegation to GPT-4o...'') user_input
          (g_robot @ '' GPT-4o Direct:\<newline>'') ''GPT-4o'' s
      else if action_type = ''force_claude'' then
        ask (call_claude E) (g_bolt @ '' Forcing delegation to Claude...'') user_input
          (g_books @ '' Claude Direct:\<newline>'') ''Claude'' s
      else if action_type = ''request_python'' then
        ask (call_gpt E) (g_snake @ '' Requesting Python script from GPT-4o...'')
          (''Create a Python script for: '' @ user_input @
           ''\<newline>\<newline>Please provide the script using @Python and @EndPython tags so it can be executed directly. Make sure the code is complete and ready to run.'')
          (g_robot @ '' GPT-4o Python Script:\<newline>'') ''GPT-4o'' s
      else if action_type = ''request_bash'' then
        ask (call_gpt E) (g_wrench @ '' Requesting Bash script from GPT-4o...'')
          (''Create a Bash script for: '' @ user_input @
           ''\<newline>\<newline>Please provide the script using @Bash and @EndBash tags so it can be executed directly. Make sure the commands are safe and well-commented.'')
          (g_robot @ '' GPT-4o Bash Script:\<newline>'') ''GPT-4o'' s
      else if action_type = ''context_gemini'' then
        ask (call_gemini E) ''\<newline>--- Sending FULL CONTEXT + AI MEMORY to Gemini ---''
          (context_prompt E user_input s)
          (g_target @ '' Gemini (Full Context+Memory):\<newline>'') ''Gemini'' s
      else if action_type = ''context_gpt'' then
        ask (call_gpt E) ''\<newline>--- Sending FULL CONTEXT + AI MEMORY to GPT-4o ---''
          (context_prompt E user_input s)
          (g_robot @ '' GPT-4o (Full Context+Memory):\<newline>'') ''GPT-4o'' s
      else if action_type = ''context_claude'' then
        ask (call_claude E) ''\<newline>--- Sending FULL CONTEXT + AI MEMORY to Claude ---''
          (context_prompt E user_input s)
          (g_books @ '' Claude (Full Context+Memory):\<newline>'') ''Claude'' s
      else (JStr [], s))"

section \<open>The autonomous loop\<close>

definition py_bool :: "bool \<Rightarrow> string" where
  "py_bool b = (if b then ''True'' else ''False'')"

definition task_prompt :: "env \<Rightarrow> string \<Rightarrow> orch \<Rightarrow> string" where
  "task_prompt E task s =
     ''\<newline>        You are an autonomous AI agent working inside a self-developing AI orchestrator system.\<newline>        \<newline>        Current system state:\<newline>        - Pending Python code: '' @
     py_bool (pending_python_code s \<noteq> []) @
     ''\<newline>        - Pending Bash code: '' @ py_bool (pending_bash_code s \<noteq> []) @
     ''\<newline>        - AI Memory: '' @ str_memory E (ai_memory s) @
     ''\<newline>        - Recent patterns: '' @
     (if learned_patterns s \<noteq> []
      then str_patterns E (drop (length (learned_patterns s) - 3) (learned_patterns s))
      else ''None'') @
     ''\<newline>        \<newline>        Your task: '' @ task @
     ''\<newline>        \<newline>        Please either:\<newline>        1. Provide executable code using @Python/@EndPython or @Bash/@EndBash tags\<newline>        2. Provide a self-modification using @SelfMod/@EndSelfMod tags\<newline>        3. Suggest improvements to the system\<newline>        \<newline>        Be autonomous and proactive in improving the system!\<newline>        ''"

definition reflection_prompt :: "env \<Rightarrow> orch \<Rightarrow> string" where
  "reflection_prompt E s =
     ''\<newline>        You are an autonomous AI agent. Analyze this AI orchestrator system and suggest 1-3 concrete improvements.\<newline>        \<newline>        Current capabilities: '' @
     (if custom_functions s \<noteq> [] then str_names E (map fst (custom_functions s))
      else ''Basic system'') @
     ''\<newline>        Recent evolution: '' @
     (if evolution_log s \<noteq> []
      then str_evolution E (drop (length (evolution_log s) - 2) (evolution_log s))
      else ''No recent changes'') @
     ''\<newline>        \<newline>        Suggest practical improvements like:\<newline>        - New utility functions\<newline>        - System optimizations  \<newline>        - Better error handling\<newline>        - User experience improvements\<newline>        \<newline>        Format as a simple list of tasks.\<newline>        ''"

text \<open>The body of the loop over the lines of the reply.\<close>

definition queue_line :: "string \<Rightarrow> orch \<Rightarrow> orch" where
  "queue_line line s =
     (if str_strip line \<noteq> [] \<and>
         (prefix ''-'' line \<or> prefix g_bullet line \<or> prefix ''1.'' line) then
        (let task = dropWhile (\<lambda>c. c \<in> set (''-'' @ g_bullet @ ''1234567890. ''))
                      (str_strip line)
         in if task \<noteq> [] then s\<lparr>autonomous_task_queue := autonomous_task_queue s @ [task]\<rparr>
            else s)
      else s)"

definition autonomous_agent_think :: "env \<Rightarrow> orch \<Rightarrow> orch" where
  "autonomous_agent_think E s =
     (if \<not> autonomous_mode s then s
      else
        (case autonomous_task_queue s of
           task # rest \<Rightarrow>
             (let s1 = s\<lparr>autonomous_task_queue := rest\<rparr>;
                  s2 = update_history (g_robot @ '' Autonomous Agent executing task: '' @ task) s1;
                  (response, s3) = call_gpt E (JStr (task_prompt E task s2)) s2;
                  s4 = update_history (g_robot @ '' Autonomous Agent Response:\<newline>'' @ response) s3;
                  s5 = extract_and_store_code response ''Autonomous-Agent'' s4
              in if pending_python_code s5 \<noteq> [] \<and> str_in ''print'' (pending_python_code s5)
                    \<and> length (pending_python_code s5) < 100
                 then run_python_code E
                        (update_history
                           (g_robot @ '' Autonomous Agent auto-executing safe Python code...'') s5)
                 else s5)
         | [] \<Rightarrow>
             (let s1 = update_history
                         (g_robot @ '' Autonomous Agent thinking of new improvements...'') s;
                  (response, s2) = call_gpt E (JStr (reflection_prompt E s1)) s1;
                  s3 = fold queue_line (str_split CHR ''\<newline>'' response) s2
              in update_history
                   (g_robot @ '' Autonomous Agent queued '' @
                      str_nat (length (autonomous_task_queue s3)) @ '' new tasks'') s3)))"

section \<open>One submitted request\<close>

definition handle_submission :: "env \<Rightarrow> string \<Rightarrow> orch \<Rightarrow> orch" where
  "handle_submission E action_type s =
     (let user_input = str_strip (buffer_text s)
      in if user_input = [] then s
         else
           (let s0 = s\<lparr>buffer_text := []\<rparr>;
                s1 = (if action_type \<notin> set [''context_gemini'', ''context_gpt'', ''context_claude'']
                      then update_history (''\<newline>--- You: '' @ user_input @ '' ---'') s0
                      else s0);
                (specialist_output, s2) = dispatch E action_type user_input s1;
                s3 = s2\<lparr>project_state := project_state s2 @
                       ''\<newline>\<newline>---\<newline>User: '' @ [CHR 0x27] @ user_input @ [CHR 0x27] @
                       ''\<newline>Action: '' @ action_type @
                       ''\<newline>Result: '' @ fmt E specialist_output @ ''\<newline>---''\<rparr>
            in if autonomous_mode s3 then autonomous_agent_think E s3 else s3))"

section \<open>The three kinds of artifact\<close>

text \<open>
  The extractor treats script-A (\<open>@Python\<close>), script-B (\<open>@Bash\<close>) and
  self-modification (\<open>@SelfMod\<close>) by three blocks of the same shape.  The kinds, their
  markers, their slots and their blocks are named here to speak about any one of them.
\<close>

datatype kind = ScriptA | ScriptB | SelfMod

fun open_marker :: "kind \<Rightarrow> string" where
  "open_marker ScriptA = ''@Python''"
| "open_marker ScriptB = ''@Bash''"
| "open_marker SelfMod = ''@SelfMod''"

fun close_marker :: "kind \<Rightarrow> string" where
  "close_marker ScriptA = ''@EndPython''"
| "close_marker ScriptB = ''@EndBash''"
| "close_marker SelfMod = ''@EndSelfMod''"

fun slot :: "kind \<Rightarrow> orch \<Rightarrow> string" where
  "slot ScriptA = pending_python_code"
| "slot ScriptB = pending_bash_code"
| "slot SelfMod = pending_self_mod"

fun block :: "kind \<Rightarrow> string \<Rightarrow> string \<Rightarrow> orch \<Rightarrow> orch" where
  "block ScriptA = python_block"
| "block ScriptB = bash_block"
| "block SelfMod = selfmod_block"

definition has_both :: "kind \<Rightarrow> string \<Rightarrow> bool" where
  "has_both k t = (str_in (open_marker k) t \<and> str_in (close_marker k) t)"

definition inner :: "kind \<Rightarrow> string \<Rightarrow> string" where
  "inner k t =
     str_strip (str_slice t (str_find t (open_marker k) + int (length (open_marker k)))
       (str_find t (close_marker k)))"

text \<open>
  \<open>first_at sub t i\<close>: the text \<open>sub\<close> stands in \<open>t\<close> at index \<open>i\<close> and at no index before.
\<close>

definition first_at :: "string \<Rightarrow> string \<Rightarrow> nat \<Rightarrow> bool" where
  "first_at sub t i =
     (i \<le> length t \<and> prefix sub (drop i t) \<and> list_all (\<lambda>j. \<not> prefix sub (drop j t)) [0..<i])"

text \<open>
  What makes the \<open>try\<close> of the branch \<open>orchestrate\<close> raise before anything is routed:
  \<open>json.loads\<close> raises, or the decoded value is not an object and has no \<open>get\<close>.
\<close>

definition decode_error :: "env \<Rightarrow> string \<Rightarrow> string option" where
  "decode_error E json_str =
     (case json_loads E json_str of
        JSONDecodeError e \<Rightarrow> Some e
      | LoadsError e \<Rightarrow> Some e
      | Decoded decision \<Rightarrow>
          (case decision of JObj kvs \<Rightarrow> None | _ \<Rightarrow> Some (type_error E ''get'' decision)))"

section \<open>Concrete runs\<close>

definition pattern_text :: string where
  \<open>pattern_text = ''{"new_pattern": "prefer short answers"}''\<close>

definition pattern_env :: env where
  "pattern_env =
     plain_env\<lparr>json_loads := (\<lambda>t. if t = pattern_text
        then Decoded (JObj [(''new_pattern'', JStr ''prefer short answers'')])
        else JSONDecodeError ''Expecting value: line 1 column 1 (char 0)'')\<rparr>"

definition pattern_state :: orch where
  "pattern_state =
     initial_state\<lparr>pending_self_mod := pattern_text, pending_code_source := ''Claude''\<rparr>"




definition seasoned_state :: orch where
  "seasoned_state =
     initial_state
       \<lparr>ai_memory := [(JStr ''tone'', JStr ''brief'')],
        learned_patterns :=
          [\<lparr>p_pattern = JStr ''prefer short answers'', p_learned_from = ''Claude'',
            p_timestamp = ''2024-04-30T09:15:00.000000''\<rparr>],
        custom_functions := [(JStr ''greet'', JStr ''print(1)'')],
        evolution_log :=
          [\<lparr>e_timestamp = ''2024-04-30T09:15:00.000001'', e_type = ''self_modification'',
            e_description = ''Applied modification: <value>'', e_source = ''Claude'',
            e_conversation_context = 812\<rparr>]\<rparr>"

definition half_marked :: string where
  "half_marked = ''@Bash echo hi  @Python print(1) @EndPython''"

definition tagged_reply :: string where
  "tagged_reply = ''Sure!\<newline>@Python\<newline>print(1)\<newline>@EndPython\<newline>Done.''"

definition slow_state :: orch where
  "slow_state =
     initial_state\<lparr>pending_python_code := ''while True: pass'', pending_code_source := ''GPT-4o''\<rparr>"

definition timeout_env :: env where
  "timeout_env = plain_env\<lparr>interpreter := (\<lambda>n p c. TimeoutExpired)\<rparr>"

definition unknown_action_reply :: string where
  \<open>unknown_action_reply = ''{"action": "escalate", "prompt": "@Python print(1) @EndPython"}''\<close>

definition unknown_action_env :: env where
  "unknown_action_env =
     plain_env
       \<lparr>json_loads := (\<lambda>t. if t = unknown_action_reply
          then Decoded (JObj [(''action'', JStr ''escalate''),
                              (''prompt'', JStr ''@Python print(1) @EndPython'')])
          else JSONDecodeError ''Expecting value: line 1 column 1 (char 0)''),
        provider := (\<lambda>b n p. if b = Gemini then Inr unknown_action_reply
          else Inl ''Connection error.'')\<rparr>"

definition asking_state :: orch where
  "asking_state = initial_state\<lparr>buffer_text := ''ship it''\<rparr>"

definition fenced_reply :: string where
  \<open>fenced_reply = ''```json\<newline>{"action":"respond_to_user","prompt":"OK"}\<newline>```''\<close>

definition fenced_env :: env where
  \<open>fenced_env =
     plain_env
       \<lparr>json_loads := (\<lambda>t. if t = ''{"action":"respond_to_user","prompt":"OK"}''
          then Decoded (JObj [(''action'', JStr ''respond_to_user''), (''prompt'', JStr ''OK'')])
          else JSONDecodeError ''Expecting value: line 1 column 1 (char 0)'')\<rparr>\<close>

text \<open>A process started anew, with the file a save of \<open>seasoned_state\<close> has written.\<close>

definition restart_state :: orch where
  "restart_state =
     initial_state\<lparr>files := files (save_ai_memory plain_env seasoned_state)\<rparr>"

section \<open>Properties\<close>

subsection \<open>What the transcript, the trace and the save leave alone\<close>

lemma update_history_fields [simp]:
  "pending_bash_code (update_history t s) = pending_bash_code s"
  "pending_python_code (update_history t s) = pending_python_code s"
  "pending_self_mod (update_history t s) = pending_self_mod s"
  "pending_code_source (update_history t s) = pending_code_source s"
  "ai_memory (update_history t s) = ai_memory s"
  "learned_patterns (update_history t s) = learned_patterns s"
  "custom_functions (update_history t s) = custom_functions s"
  "evolution_log (update_history t s) = evolution_log s"
  "files (update_history t s) = files s"
  "effects (update_history t s) = effects s"
  "step (update_history t s) = step s"
  by (simp_all add: update_history_def step_def)

lemma emit_fields [simp]:
  "pending_bash_code (emit ev s) = pending_bash_code s"
  "pending_python_code (emit ev s) = pending_python_code s"
  "pending_self_mod (emit ev s) = pending_self_mod s"
  "pending_code_source (emit ev s) = pending_code_source s"
  "ai_memory (emit ev s) = ai_memory s"
  "learned_patterns (emit ev s) = learned_patterns s"
  "custom_functions (emit ev s) = custom_functions s"
  "evolution_log (emit ev s) = evolution_log s"
  "conversation_history (emit ev s) = conversation_history s"
  "files (emit ev s) = files s"
  "effects (emit ev s) = effects s @ [ev]"
  "step (emit ev s) = Suc (step s)"
  by (simp_all add: emit_def step_def)

lemma save_fields [simp]:
  "pending_bash_code (save_ai_memory E s) = pending_bash_code s"
  "pending_python_code (save_ai_memory E s) = pending_python_code s"
  "pending_self_mod (save_ai_memory E s) = pending_self_mod s"
  "pending_code_source (save_ai_memory E s) = pending_code_source s"
  "ai_memory (save_ai_memory E s) = ai_memory s"
  "learned_patterns (save_ai_memory E s) = learned_patterns s"
  "custom_functions (save_ai_memory E s) = custom_functions s"
  "evolution_log (save_ai_memory E s) = evolution_log s"
  "step (save_ai_memory E s) = Suc (Suc (step s))"
  "effects (save_ai_memory E s) = effects s @ [ClockRead, DumpMemory]"
  by (simp_all add: save_ai_memory_def Let_def step_def emit_def update_history_def
      split: write_outcome.split)

text \<open>A save whose write succeeds leaves the four fields and the time stamp in the file.\<close>

lemma save_written:
  "dump_outcome E (Suc (step s)) = Written \<Longrightarrow>
   files (save_ai_memory E s) ''ai_memory.pkl'' =
     Some (Pickle \<lparr>sv_memory = Some (ai_memory s), sv_patterns = Some (learned_patterns s),
                   sv_functions = Some (custom_functions s),
                   sv_evolution = Some (evolution_log s),
                   sv_last_saved = Some (clock E (step s))\<rparr>)"
  by (simp add: save_ai_memory_def Let_def)

subsection \<open>The extractor, block by block\<close>

lemma block_slot:
  "slot k' (block k t src s) = (if k' = k \<and> has_both k t then inner k t else slot k' s)"
  by (cases k; cases k')
     (simp_all add: python_block_def bash_block_def selfmod_block_def has_both_def inner_def Let_def)

lemma block_skip: "\<not> has_both k t \<Longrightarrow> block k t src s = s"
  by (cases k) (auto simp: python_block_def bash_block_def selfmod_block_def has_both_def)

lemma extract_blocks:
  "extract_and_store_code t src s =
     block SelfMod t src (block ScriptA t src (block ScriptB t src s))"
  by (simp add: extract_and_store_code_def)

lemma extract_slot:
  "slot k (extract_and_store_code t src s) = (if has_both k t then inner k t else slot k s)"
  unfolding extract_blocks block_slot by (cases k) simp_all

subsection \<open>Execution consumes the staged script\<close>

text \<open>
  C3.  After \<open>run_bash_code\<close> the script-B slot is empty and after \<open>run_python_code\<close>
  the script-A slot is empty, whatever the environment answers: exit code 0, another
  exit code, a timeout, or any other exception of the launch.
\<close>

theorem execution_clears_slot:
  "pending_bash_code (run_bash_code E s) = [] \<and>
   pending_python_code (run_python_code E s) = []"
  by (simp add: run_bash_code_def run_python_code_def Let_def)

subsection \<open>A structured record with \<open>new_pattern\<close> alone\<close>

text \<open>
  C5.  When the staged self-modification decodes to an object whose only key is
  \<open>new_pattern\<close>, applying it appends one entry to \<open>learned_patterns\<close> (the value, the
  current provenance, the time read) and one entry of type \<open>self_modification\<close> to the
  evolution log, and leaves \<open>ai_memory\<close> and \<open>custom_functions\<close> as they were; no
  exception leaves the function.
\<close>

theorem new_pattern_only:
  assumes "pending_self_mod s \<noteq> []"
    and "json_loads E (pending_self_mod s) = Decoded (JObj [(''new_pattern'', v)])"
  shows "learned_patterns (fst (apply_self_modification E s)) =
           learned_patterns s @
             [\<lparr>p_pattern = v, p_learned_from = pending_code_source s,
               p_timestamp = clock E (step s)\<rparr>] \<and>
         (\<exists>e. evolution_log (fst (apply_self_modification E s)) = evolution_log s @ [e] \<and>
              e_type e = ''self_modification'' \<and> e_source e = pending_code_source s) \<and>
         ai_memory (fst (apply_self_modification E s)) = ai_memory s \<and>
         custom_functions (fst (apply_self_modification E s)) = custom_functions s \<and>
         snd (apply_self_modification E s) = None"
  using assms
  by (simp add: apply_self_modification_def apply_structured_def memory_update_block_def
      new_pattern_block_def new_function_block_def py_contains_def py_getitem_def
      log_evolution_def Let_def)

theorem new_pattern_only_witness:
  "pending_self_mod pattern_state \<noteq> [] \<and>
   json_loads pattern_env (pending_self_mod pattern_state) =
     Decoded (JObj [(''new_pattern'', JStr ''prefer short answers'')]) \<and>
   learned_patterns (fst (apply_self_modification pattern_env pattern_state)) =
     [\<lparr>p_pattern = JStr ''prefer short answers'', p_learned_from = ''Claude'',
       p_timestamp = ''2024-05-01T12:00:00.000000''\<rparr>] \<and>
   length (evolution_log (fst (apply_self_modification pattern_env pattern_state))) = 1 \<and>
   ai_memory (fst (apply_self_modification pattern_env pattern_state)) = [] \<and>
   custom_functions (fst (apply_self_modification pattern_env pattern_state)) = []"
proof -
  have nonempty: "pending_self_mod pattern_state \<noteq> []"
    by (simp add: pattern_state_def pattern_text_def)
  have decoded: "json_loads pattern_env (pending_self_mod pattern_state) =
      Decoded (JObj [(''new_pattern'', JStr ''prefer short answers'')])"
    by (simp add: pattern_state_def pattern_env_def)
  from new_pattern_only [OF nonempty decoded] nonempty decoded show ?thesis
    by (auto simp: pattern_state_def pattern_env_def plain_env_def initial_state_def)
qed

subsection \<open>An application that returns ends with the slot cleared and a save\<close>





subsection \<open>Saving and loading\<close>

text \<open>
  C8.  After a save whose write succeeds, a load whose read succeeds, run in any state
  that finds the file as the save left it (the state right after the save, or the
  fresh variables of a process started anew), sets \<open>ai_memory\<close>, \<open>learned_patterns\<close>,
  \<open>custom_functions\<close> and \<open>evolution_log\<close> to what they were, field for field, when the
  save was made.  (The time stamp \<open>last_saved\<close> is written and never read back.)
\<close>

theorem save_load_round_trip:
  assumes "dump_outcome E (Suc (step s)) = Written"
    and "files s' ''ai_memory.pkl'' = files (save_ai_memory E s) ''ai_memory.pkl''"
    and "load_error E (step s') = None"
  shows "ai_memory (load_ai_memory E s') = ai_memory s \<and>
         learned_patterns (load_ai_memory E s') = learned_patterns s \<and>
         custom_functions (load_ai_memory E s') = custom_functions s \<and>
         evolution_log (load_ai_memory E s') = evolution_log s"
  using assms save_written [of E s]
  by (simp add: load_ai_memory_def Let_def)

theorem save_load_round_trip_witness:
  "dump_outcome plain_env (Suc (step seasoned_state)) = Written \<and>
   files restart_state ''ai_memory.pkl'' =
     files (save_ai_memory plain_env seasoned_state) ''ai_memory.pkl'' \<and>
   load_error plain_env (step restart_state) = None \<and>
   ai_memory restart_state = [] \<and> custom_functions restart_state = [] \<and>
   learned_patterns restart_state = [] \<and> evolution_log restart_state = [] \<and>
   ai_memory (load_ai_memory plain_env restart_state) = [(JStr ''tone'', JStr ''brief'')] \<and>
   custom_functions (load_ai_memory plain_env restart_state) =
     [(JStr ''greet'', JStr ''print(1)'')] \<and>
   length (learned_patterns (load_ai_memory plain_env restart_state)) = 1 \<and>
   length (evolution_log (load_ai_memory plain_env restart_state)) = 1 \<and>
   ai_memory (load_ai_memory plain_env (save_ai_memory plain_env seasoned_state)) =
     [(JStr ''tone'', JStr ''brief'')]"
proof -
  have written: "dump_outcome plain_env (Suc (step seasoned_state)) = Written"
    by (simp add: plain_env_def)
  have found: "files restart_state ''ai_memory.pkl'' =
      files (save_ai_memory plain_env seasoned_state) ''ai_memory.pkl''"
    by (simp add: restart_state_def)
  have readable: "load_error plain_env n = None" for n
    by (simp add: plain_env_def)
  have fresh: "ai_memory restart_state = [] \<and> custom_functions restart_state = [] \<and>
      learned_patterns restart_state = [] \<and> evolution_log restart_state = []"
    by (simp add: restart_state_def initial_state_def)
  have before: "ai_memory seasoned_state = [(JStr ''tone'', JStr ''brief'')] \<and>
      custom_functions seasoned_state = [(JStr ''greet'', JStr ''print(1)'')] \<and>
      length (learned_patterns seasoned_state) = 1 \<and>
      length (evolution_log seasoned_state) = 1"
    by (simp add: seasoned_state_def)
  from save_load_round_trip [OF written found readable]
       save_load_round_trip [OF written refl readable]
       written found readable fresh before
  show ?thesis by simp
qed

subsection \<open>A missing marker\<close>

text \<open>
  C7.  When a text lacks the open marker or the close marker of a kind, the extractor
  leaves the slot of that kind as it was; the slot of each other kind is what its own
  two markers give (the trimmed inner text when both are there, the old value
  otherwise); and the whole result is that of the blocks of the other two kinds alone,
  so nothing is shown for the kind that is missing a marker.
\<close>

theorem missing_marker_stages_nothing:
  assumes "\<not> str_in (open_marker k) t \<or> \<not> str_in (close_marker k) t"
  shows "slot k (extract_and_store_code t src s) = slot k s \<and>
         (\<forall>k'. k' \<noteq> k \<longrightarrow>
            slot k' (extract_and_store_code t src s) =
              (if has_both k' t then inner k' t else slot k' s)) \<and>
         extract_and_store_code t src s =
           fold (\<lambda>k'. block k' t src) (removeAll k [ScriptB, ScriptA, SelfMod]) s"
proof -
  from assms have no: "\<not> has_both k t" by (auto simp: has_both_def)
  have others: "extract_and_store_code t src s =
          fold (\<lambda>k'. block k' t src) (removeAll k [ScriptB, ScriptA, SelfMod]) s"
    using block_skip [OF no] unfolding extract_blocks by (cases k) simp_all
  have own: "slot k (extract_and_store_code t src s) = slot k s"
    using no by (simp add: extract_slot)
  have rest: "\<forall>k'. k' \<noteq> k \<longrightarrow>
            slot k' (extract_and_store_code t src s) =
              (if has_both k' t then inner k' t else slot k' s)"
    by (simp add: extract_slot)
  from own rest others show ?thesis by blast
qed

subsection \<open>The gateway never raises\<close>

text \<open>
  C9.  Each of \<open>call_gemini\<close>, \<open>call_gpt\<close> and \<open>call_claude\<close> returns a text for every
  prompt (the exception of the provider is caught inside the call); when the provider
  fails with message \<open>m\<close>, the text is the backend's name, \<open>Error:\<close> and \<open>m\<close>.
\<close>

theorem gateway_total:
  "(provider E Gemini (Suc (step s)) p = Inl m \<longrightarrow>
      fst (call_gemini E p s) = ''Gemini Error: '' @ m) \<and>
   (provider E GPT (Suc (step s)) p = Inl m \<longrightarrow>
      fst (call_gpt E p s) = ''GPT Error: '' @ m) \<and>
   (provider E Claude (Suc (step s)) p = Inl m \<longrightarrow>
      fst (call_claude E p s) = ''Claude Error: '' @ m)"
  by (simp add: call_gemini_def call_gpt_def call_claude_def Let_def)

theorem gateway_total_witness:
  "provider plain_env Gemini (Suc (step initial_state)) (JStr ''hello'') = Inl ''Connection error.'' \<and>
   provider plain_env GPT (Suc (step initial_state)) (JStr ''hello'') = Inl ''Connection error.'' \<and>
   provider plain_env Claude (Suc (step initial_state)) (JStr ''hello'') = Inl ''Connection error.'' \<and>
   fst (call_gemini plain_env (JStr ''hello'') initial_state) = ''Gemini Error: Connection error.'' \<and>
   fst (call_gpt plain_env (JStr ''hello'') initial_state) = ''GPT Error: Connection error.'' \<and>
   fst (call_claude plain_env (JStr ''hello'') initial_state) = ''Claude Error: Connection error.''"
proof -
  have failing: "provider plain_env b n q = Inl ''Connection error.''" for b n q
    by (simp add: plain_env_def)
  from gateway_total [of plain_env initial_state "JStr ''hello''" "''Connection error.''"] failing
  show ?thesis by simp
qed

subsection \<open>An empty slot\<close>

text \<open>
  C10.  Run with its slot empty, each of \<open>run_python_code\<close>, \<open>run_bash_code\<close> and
  \<open>apply_self_modification\<close> returns the state it was given with one message added to
  the transcript: the trace of interactions, the files, the Memory Bundle and the
  pending slots are the same (and no exception leaves \<open>apply_self_modification\<close>).
\<close>

theorem empty_slot_noop:
  "(pending_python_code s = [] \<longrightarrow>
      run_python_code E s =
        s\<lparr>conversation_history := conversation_history s @
             wrapped_text (g_cross @ '' No Python code pending'')\<rparr>) \<and>
   (pending_bash_code s = [] \<longrightarrow>
      run_bash_code E s =
        s\<lparr>conversation_history := conversation_history s @
             wrapped_text (g_cross @ '' No bash code pending'')\<rparr>) \<and>
   (pending_self_mod s = [] \<longrightarrow>
      apply_self_modification E s =
        (s\<lparr>conversation_history := conversation_history s @
             wrapped_text (g_cross @ '' No self-modification pending'')\<rparr>, None))"
  by (simp add: run_bash_code_def run_python_code_def apply_self_modification_def
      update_history_def)

theorem empty_slot_noop_witness:
  "pending_python_code initial_state = [] \<and> pending_bash_code initial_state = [] \<and>
   pending_self_mod initial_state = [] \<and>
   effects (run_python_code plain_env initial_state) = [] \<and>
   effects (run_bash_code plain_env initial_state) = [] \<and>
   effects (fst (apply_self_modification plain_env initial_state)) = [] \<and>
   files (fst (apply_self_modification plain_env initial_state)) ''ai_memory.pkl'' = None \<and>
   snd (apply_self_modification plain_env initial_state) = None"
  using empty_slot_noop [of initial_state plain_env]
  by (simp add: initial_state_def)

theorem missing_marker_stages_nothing_witness:
  "str_in (open_marker ScriptB) half_marked \<and> \<not> str_in (close_marker ScriptB) half_marked \<and>
   pending_bash_code (extract_and_store_code half_marked ''GPT-4o'' initial_state) = [] \<and>
   pending_python_code (extract_and_store_code half_marked ''GPT-4o'' initial_state) = ''print(1)'' \<and>
   pending_self_mod (extract_and_store_code half_marked ''GPT-4o'' initial_state) = []"
proof -
  have missing: "\<not> str_in (open_marker ScriptB) half_marked \<or> \<not> str_in (close_marker ScriptB) half_marked"
    by (simp add: half_marked_def)
  have a: "has_both ScriptA half_marked" by (simp add: has_both_def half_marked_def)
  have b: "inner ScriptA half_marked = ''print(1)''"
    by (simp add: inner_def half_marked_def str_slice_def slice_bound_def str_strip_def is_space_def)
  have c: "\<not> has_both SelfMod half_marked" by (simp add: has_both_def half_marked_def)
  have opened: "str_in (open_marker ScriptB) half_marked" by (simp add: half_marked_def)
  have unclosed: "\<not> str_in (close_marker ScriptB) half_marked" by (simp add: half_marked_def)
  from missing_marker_stages_nothing [OF missing, of "''GPT-4o''" initial_state]
    opened unclosed a b c
  show ?thesis by (auto simp: initial_state_def)
qed

subsection \<open>First occurrences\<close>

lemma str_in_iff: "str_in sub t \<longleftrightarrow> (\<exists>i\<le>length t. prefix sub (drop i t))"
proof (induction t)
  case Nil
  then show ?case by simp
next
  case (Cons c cs)
  show ?case
  proof
    assume "str_in sub (c # cs)"
    then consider "prefix sub (c # cs)" | "str_in sub cs" by auto
    then show "\<exists>i\<le>length (c # cs). prefix sub (drop i (c # cs))"
    proof cases
      case 1
      then show ?thesis by (intro exI[of _ 0]) simp
    next
      case 2
      with Cons.IH obtain i where "i \<le> length cs" "prefix sub (drop i cs)" by auto
      then show ?thesis by (intro exI[of _ "Suc i"]) simp
    qed
  next
    assume "\<exists>i\<le>length (c # cs). prefix sub (drop i (c # cs))"
    then obtain i where i: "i \<le> length (c # cs)" "prefix sub (drop i (c # cs))" by auto
    show "str_in sub (c # cs)"
    proof (cases i)
      case 0
      with i show ?thesis by simp
    next
      case (Suc j)
      with i have "j \<le> length cs" "prefix sub (drop j cs)" by auto
      with Cons.IH show ?thesis by auto
    qed
  qed
qed

lemma str_find_first: "first_at sub t i \<Longrightarrow> str_find t sub = int i"
proof (induction t arbitrary: i)
  case Nil
  then show ?case by (auto simp: first_at_def)
next
  case (Cons c cs)
  show ?case
  proof (cases i)
    case 0
    with Cons.prems show ?thesis by (simp add: first_at_def)
  next
    case (Suc j)
    from Cons.prems Suc have before: "\<forall>k<Suc j. \<not> prefix sub (drop k (c # cs))"
      by (auto simp: first_at_def list_all_iff simp del: upt_Suc)
    from before have np: "\<not> prefix sub (c # cs)"
      by (auto dest: spec[of _ 0])
    have "\<not> prefix sub (drop k cs)" if "k < j" for k
      using before that by (auto dest: spec[of _ "Suc k"])
    with Cons.prems Suc have "first_at sub cs j"
      by (auto simp: first_at_def list_all_iff simp del: upt_Suc)
    with Cons.IH have "str_find cs sub = int j" by blast
    with np Suc show ?thesis by (simp add: Let_def)
  qed
qed

lemma str_in_first: "str_in sub t \<Longrightarrow> \<exists>i. first_at sub t i"
proof -
  assume "str_in sub t"
  then obtain i where i: "i \<le> length t \<and> prefix sub (drop i t)" by (auto simp: str_in_iff)
  define m where "m = (LEAST i. i \<le> length t \<and> prefix sub (drop i t))"
  have m: "m \<le> length t \<and> prefix sub (drop m t)"
    unfolding m_def using i by (rule LeastI)
  have "\<not> (j \<le> length t \<and> prefix sub (drop j t))" if "j < m" for j
    using that unfolding m_def by (rule not_less_Least)
  with m have "first_at sub t m"
    by (auto simp: first_at_def list_all_iff)
  then show ?thesis ..
qed

lemma first_at_bounds:
  assumes "first_at sub t i"
  shows "i + length sub \<le> length t"
proof -
  from assms have "i \<le> length t" "prefix sub (drop i t)" by (auto simp: first_at_def)
  then show ?thesis using prefix_length_le [of sub "drop i t"] by simp
qed

lemma str_slice_between:
  assumes "a \<le> length t" "j \<le> length t"
  shows "str_slice t (int a) (int j) = take (j - a) (drop a t)"
  using assms by (simp add: str_slice_def slice_bound_def Let_def)

subsection \<open>The script-A block of a reply\<close>

text \<open>
  C4.  When a text contains \<open>@Python\<close> and \<open>@EndPython\<close>, each has a first occurrence,
  say at \<open>i\<close> and at \<open>j\<close>, and the extractor stages as script-A artifact the
  characters from index \<open>i + 7\<close> (the end of the first open marker) up to index \<open>j\<close>
  (the start of the first close marker), trimmed of surrounding white space, whatever
  else the text holds.  When the first close marker starts before the first open
  marker ends there is no character in between, and the staged text is empty.
\<close>

theorem python_block_extracted:
  assumes "str_in ''@Python'' t" and "str_in ''@EndPython'' t"
  shows "(\<exists>i j. first_at ''@Python'' t i \<and> first_at ''@EndPython'' t j) \<and>
         (\<forall>i j. first_at ''@Python'' t i \<and> first_at ''@EndPython'' t j \<longrightarrow>
            pending_python_code (extract_and_store_code t src s) =
              str_strip (take (j - (i + 7)) (drop (i + 7) t)))"
proof (intro conjI allI impI)
  from assms show "\<exists>i j. first_at ''@Python'' t i \<and> first_at ''@EndPython'' t j"
    by (blast dest: str_in_first)
next
  fix i j
  assume occ: "first_at ''@Python'' t i \<and> first_at ''@EndPython'' t j"
  then have fi: "str_find t ''@Python'' = int i" and fj: "str_find t ''@EndPython'' = int j"
    by (simp_all add: str_find_first)
  from occ have bi: "i + 7 \<le> length t" using first_at_bounds [of "''@Python''" t i] by simp
  from occ have bj: "j \<le> length t" by (simp add: first_at_def)
  have "pending_python_code (extract_and_store_code t src s) = inner ScriptA t"
    using assms extract_slot [of ScriptA t src s] by (simp add: has_both_def)
  also have "\<dots> = str_strip (str_slice t (int (i + 7)) (int j))"
    by (simp add: inner_def fi fj)
  also have "\<dots> = str_strip (take (j - (i + 7)) (drop (i + 7) t))"
    using bi bj by (simp only: str_slice_between)
  finally show "pending_python_code (extract_and_store_code t src s) =
      str_strip (take (j - (i + 7)) (drop (i + 7) t))" .
qed

theorem python_block_extracted_witness:
  "str_in ''@Python'' tagged_reply \<and> str_in ''@EndPython'' tagged_reply \<and>
   first_at ''@Python'' tagged_reply 6 \<and> first_at ''@EndPython'' tagged_reply 23 \<and>
   pending_python_code (extract_and_store_code tagged_reply ''GPT-4o'' initial_state) = ''print(1)''"
proof -
  have a: "str_in ''@Python'' tagged_reply" by (simp add: tagged_reply_def)
  have b: "str_in ''@EndPython'' tagged_reply" by (simp add: tagged_reply_def)
  have c: "first_at ''@Python'' tagged_reply 6"
    by (simp add: first_at_def tagged_reply_def upt_rec)
  have d: "first_at ''@EndPython'' tagged_reply 23"
    by (simp add: first_at_def tagged_reply_def upt_rec)
  have e: "str_strip (take (23 - (6 + 7)) (drop (6 + 7) tagged_reply)) = ''print(1)''"
    by (simp add: tagged_reply_def str_strip_def is_space_def)
  from python_block_extracted [OF a b, of "''GPT-4o''" initial_state] c d
  have "pending_python_code (extract_and_store_code tagged_reply ''GPT-4o'' initial_state) =
      str_strip (take (23 - (6 + 7)) (drop (6 + 7) tagged_reply))" by blast
  with a b c d e show ?thesis by simp
qed

subsection \<open>The temporary file of a script-A run\<close>

text \<open>
  The file is unlinked when \<open>subprocess.run\<close> returns, with any exit code.  When the
  run times out, control leaves the \<open>try\<close> before \<open>os.unlink\<close> and the file stays.
\<close>

lemma temp_file_left_on_timeout:
  assumes "pending_python_code s \<noteq> []"
    and "mktemp E (step s) = Inr path"
    and "write_error E (Suc (step s)) = None"
    and "interpreter E (Suc (Suc (step s))) path (pending_python_code s) = TimeoutExpired"
  shows "files (run_python_code E s) path = Some (Script (pending_python_code s))"
  using assms by (simp add: run_python_code_def python_try_def Let_def step_def emit_def update_history_def)

lemma temp_file_removed_on_return:
  assumes "pending_python_code s \<noteq> []"
    and "mktemp E (step s) = Inr path"
    and "write_error E (Suc (step s)) = None"
    and "interpreter E (Suc (Suc (step s))) path (pending_python_code s) = Completed rc out err"
  shows "files (run_python_code E s) path = None"
  using assms by (simp add: run_python_code_def python_try_def Let_def step_def emit_def update_history_def)

text \<open>
  C2.  The claim is that the temporary file is deleted after every run, also when the
  run times out.  In this run the staged body \<open>while True: pass\<close> is written to a new
  temporary file, the interpreter times out, and afterwards the file is still there
  with the body in it, while the slot is empty.
\<close>

theorem temp_file_leaks_on_timeout:
  "pending_python_code slow_state = ''while True: pass'' \<and>
   files slow_state ''/tmp/tmpk3v9x2.py'' = None \<and>
   mktemp timeout_env (step slow_state) = Inr ''/tmp/tmpk3v9x2.py'' \<and>
   interpreter timeout_env (Suc (Suc (step slow_state))) ''/tmp/tmpk3v9x2.py'' ''while True: pass'' = TimeoutExpired \<and>
   files (run_python_code timeout_env slow_state) ''/tmp/tmpk3v9x2.py'' =
     Some (Script ''while True: pass'') \<and>
   pending_python_code (run_python_code timeout_env slow_state) = []"
  by (simp add: run_python_code_def python_try_def Let_def step_def emit_def update_history_def
      slow_state_def timeout_env_def plain_env_def initial_state_def)

subsection \<open>Decisions that are not delegations\<close>

lemma strip_unknown: "strip_fences unknown_action_reply = unknown_action_reply"
  by (simp add: strip_fences_def unknown_action_reply_def str_strip_def is_space_def Let_def)

text \<open>
  C1, as claimed, fails: the reply of the decision backend decodes to an object whose
  action \<open>escalate\<close> is none of the three named ones, and the request still ends
  with the prompt of the reply staged as a script-A artifact of source
  \<open>Orchestrator\<close>: the prompt was treated as a response and fed to the extractor.
\<close>

theorem unknown_action_is_routed:
  "json_loads unknown_action_env (strip_fences unknown_action_reply) =
     Decoded (JObj [(''action'', JStr ''escalate''),
                    (''prompt'', JStr ''@Python print(1) @EndPython'')]) \<and>
   pending_python_code asking_state = [] \<and>
   pending_python_code (handle_submission unknown_action_env ''orchestrate'' asking_state) =
     ''print(1)'' \<and>
   pending_code_source (handle_submission unknown_action_env ''orchestrate'' asking_state) =
     ''Orchestrator''"
proof -
  have gem: "call_gemini unknown_action_env p s = (unknown_action_reply, emit (Generate Gemini p)
      (emit (Print ''--- Calling Orchestrator (Gemini) ---'') s))" for p s
    by (simp add: call_gemini_def unknown_action_env_def plain_env_def Let_def)
  have loads: "json_loads unknown_action_env unknown_action_reply =
     Decoded (JObj [(''action'', JStr ''escalate''),
                    (''prompt'', JStr ''@Python print(1) @EndPython'')])"
    by (simp add: unknown_action_env_def)
  have inner: "str_strip (str_slice ''@Python print(1) @EndPython'' 7 17) = ''print(1)''"
    by (simp add: str_slice_def slice_bound_def str_strip_def is_space_def)
  have ex: "pending_python_code (extract_and_store_code ''@Python print(1) @EndPython'' src s) = ''print(1)''
     \<and> pending_code_source (extract_and_store_code ''@Python print(1) @EndPython'' src s) = src" for src s
    using inner
    by (simp add: extract_and_store_code_def bash_block_def python_block_def selfmod_block_def Let_def)
  have input: "str_strip ''ship it'' = ''ship it''"
    by (simp add: str_strip_def is_space_def)
  have route: "pending_python_code (snd (route_decision unknown_action_env unknown_action_reply s)) = ''print(1)''
    \<and> pending_code_source (snd (route_decision unknown_action_env unknown_action_reply s)) = ''Orchestrator''" for s
    using ex by (simp add: route_decision_def decide_def strip_unknown loads dict_get_def
        extract_dynamic_def Let_def)
  have auto_off: "autonomous_mode (snd (route_decision unknown_action_env unknown_action_reply s)) = autonomous_mode s" for s
    by (simp add: route_decision_def decide_def strip_unknown loads dict_get_def
        extract_dynamic_def Let_def extract_and_store_code_def bash_block_def python_block_def selfmod_block_def update_history_def)
  show ?thesis
    using route auto_off
    by (simp add: strip_unknown loads handle_submission_def input dispatch_def orchestrate_def gem
        Let_def split_beta asking_state_def initial_state_def update_history_def emit_def)
qed

text \<open>
  C1, amended.  When the parse of the decision fails (\<open>json.loads\<close> raises, or the
  decoded value is not an object), the result of the orchestration step is the error
  report, which holds the message and the raw decision text, and the state is the
  given one with that report added to the transcript: no backend is called and no slot
  changes.  When the decision decodes to an object whose action is anything but
  \<open>delegate_to_gpt\<close> and \<open>delegate_to_claude\<close>, and whose prompt is a text, the prompt
  is the response: it is shown and handed to the extractor under the source
  \<open>Orchestrator\<close>, and no backend is called.
\<close>

theorem parse_failure_is_reported:
  "(decode_error E (strip_fences d) = Some e \<longrightarrow>
      route_decision E d s =
        (JStr (g_cross @ '' Error parsing decision: '' @ e @ ''\<newline>Raw output: '' @ d),
         s\<lparr>conversation_history := conversation_history s @
             wrapped_text (g_cross @ '' Error parsing decision: '' @ e @
               ''\<newline>Raw output: '' @ d)\<rparr>)) \<and>
   (json_loads E (strip_fences d) = Decoded (JObj kvs) \<and>
    dict_get kvs ''action'' \<noteq> JStr ''delegate_to_gpt'' \<and>
    dict_get kvs ''action'' \<noteq> JStr ''delegate_to_claude'' \<and>
    dict_get kvs ''prompt'' = JStr p \<longrightarrow>
      route_decision E d s =
        (JStr p,
         extract_and_store_code p ''Orchestrator''
           (update_history (g_target @ '' Orchestrator Response:\<newline>'' @ p) s)) \<and>
      effects (snd (route_decision E d s)) = effects s)"
proof (intro conjI impI)
  assume "decode_error E (strip_fences d) = Some e"
  then show "route_decision E d s =
        (JStr (g_cross @ '' Error parsing decision: '' @ e @ ''\<newline>Raw output: '' @ d),
         s\<lparr>conversation_history := conversation_history s @
             wrapped_text (g_cross @ '' Error parsing decision: '' @ e @
               ''\<newline>Raw output: '' @ d)\<rparr>)"
    by (auto simp: decode_error_def route_decision_def decide_def update_history_def Let_def
        split: loads_result.splits json.splits)
next
  assume a: "json_loads E (strip_fences d) = Decoded (JObj kvs) \<and>
    dict_get kvs ''action'' \<noteq> JStr ''delegate_to_gpt'' \<and>
    dict_get kvs ''action'' \<noteq> JStr ''delegate_to_claude'' \<and>
    dict_get kvs ''prompt'' = JStr p"
  then show r: "route_decision E d s =
        (JStr p,
         extract_and_store_code p ''Orchestrator''
           (update_history (g_target @ '' Orchestrator Response:\<newline>'' @ p) s))"
    by (simp add: route_decision_def decide_def extract_dynamic_def fmt_def Let_def)
  have "effects (extract_and_store_code p src s') = effects s'" for src s'
    by (simp add: extract_and_store_code_def bash_block_def python_block_def selfmod_block_def Let_def)
  with r show "effects (snd (route_decision E d s)) = effects s" by simp
qed

lemma strip_fenced:
  \<open>strip_fences fenced_reply = ''{"action":"respond_to_user","prompt":"OK"}''\<close>
  by (simp add: strip_fences_def fenced_reply_def str_strip_def is_space_def Let_def)

theorem parse_failure_is_reported_witness:
  "decode_error plain_env (strip_fences ''Let GPT handle it.'') =
     Some ''Expecting value: line 1 column 1 (char 0)'' \<and>
   fst (route_decision plain_env ''Let GPT handle it.'' initial_state) =
     JStr (g_cross @ '' Error parsing decision: Expecting value: line 1 column 1 (char 0)'' @
           ''\<newline>Raw output: Let GPT handle it.'') \<and>
   effects (snd (route_decision plain_env ''Let GPT handle it.'' initial_state)) = [] \<and>
   pending_python_code (snd (route_decision plain_env ''Let GPT handle it.'' initial_state)) = [] \<and>
   json_loads fenced_env (strip_fences fenced_reply) =
     Decoded (JObj [(''action'', JStr ''respond_to_user''), (''prompt'', JStr ''OK'')]) \<and>
   fst (route_decision fenced_env fenced_reply initial_state) = JStr ''OK'' \<and>
   effects (snd (route_decision fenced_env fenced_reply initial_state)) = []"
proof -
  have failing: "decode_error plain_env (strip_fences ''Let GPT handle it.'') =
      Some ''Expecting value: line 1 column 1 (char 0)''"
    by (simp add: decode_error_def plain_env_def)
  have decoded: "json_loads fenced_env (strip_fences fenced_reply) =
      Decoded (JObj [(''action'', JStr ''respond_to_user''), (''prompt'', JStr ''OK'')])"
    by (simp add: strip_fenced fenced_env_def)
  have fields: "dict_get [(''action'', JStr ''respond_to_user''), (''prompt'', JStr ''OK'')] ''action''
        \<noteq> JStr ''delegate_to_gpt'' \<and>
      dict_get [(''action'', JStr ''respond_to_user''), (''prompt'', JStr ''OK'')] ''action''
        \<noteq> JStr ''delegate_to_claude'' \<and>
      dict_get [(''action'', JStr ''respond_to_user''), (''prompt'', JStr ''OK'')] ''prompt''
        = JStr ''OK''"
    by (simp add: dict_get_def)
  have start: "effects initial_state = [] \<and> pending_python_code initial_state = []"
    by (simp add: initial_state_def)
  from parse_failure_is_reported
         [where E = plain_env and d = "''Let GPT handle it.''"
            and e = "''Expecting value: line 1 column 1 (char 0)''" and s = initial_state]
       failing
  have report: "route_decision plain_env ''Let GPT handle it.'' initial_state =
      (JStr (g_cross @ '' Error parsing decision: '' @
             ''Expecting value: line 1 column 1 (char 0)'' @
             ''\<newline>Raw output: '' @ ''Let GPT handle it.''),
       initial_state\<lparr>conversation_history := conversation_history initial_state @
         wrapped_text (g_cross @ '' Error parsing decision: '' @
           ''Expecting value: line 1 column 1 (char 0)'' @
           ''\<newline>Raw output: '' @ ''Let GPT handle it.'')\<rparr>)"
    by blast
  from parse_failure_is_reported
         [where E = fenced_env and d = fenced_reply
            and kvs = "[(''action'', JStr ''respond_to_user''), (''prompt'', JStr ''OK'')]"
            and p = "''OK''" and s = initial_state]
       decoded fields
  have direct: "route_decision fenced_env fenced_reply initial_state =
        (JStr ''OK'',
         extract_and_store_code ''OK'' ''Orchestrator''
           (update_history (g_target @ '' Orchestrator Response:\<newline>'' @ ''OK'')
              initial_state)) \<and>
      effects (snd (route_decision fenced_env fenced_reply initial_state)) =
        effects initial_state"
    by blast
  have one: "fst (route_decision plain_env ''Let GPT handle it.'' initial_state) =
     JStr (g_cross @ '' Error parsing decision: Expecting value: line 1 column 1 (char 0)'' @
           ''\<newline>Raw output: Let GPT handle it.'')"
    by (simp add: report)
  have two: "effects (snd (route_decision plain_env ''Let GPT handle it.'' initial_state)) = []"
    by (simp add: report start)
  have three: "pending_python_code
      (snd (route_decision plain_env ''Let GPT handle it.'' initial_state)) = []"
    by (simp add: report start)
  have four: "fst (route_decision fenced_env fenced_reply initial_state) = JStr ''OK''"
    using conjunct1 [OF direct] by simp
  have five: "effects (snd (route_decision fenced_env fenced_reply initial_state)) = []"
    using conjunct2 [OF direct] conjunct1 [OF start] by (rule trans)
  from failing decoded one two three four five show ?thesis by blast
qed

end
